theory Spec2Isabelle
  imports Main "HOL-Library.AList" "HOL-Library.Char_ord" "HOL-Library.List_Lexorder"
begin

section \<open>Data model of the schema loader component\<close>

text \<open>
  The component under study is \<^verbatim>\<open>docs/src/components/NebariSchemaLoader/index.tsx\<close>, which
  exists in two near-duplicate variants. Definitions that belong to the second variant carry
  the suffix \<open>2\<close>; selector names that clash with Isabelle keywords or HOL constants carry
  the suffix \<open>_f\<close> (\<open>enum_f\<close>, \<open>default_f\<close>, \<open>note_f\<close>).

  Strings are lists of 8-bit characters ordered by character code, which is how JavaScript
  compares strings whose code units are below 256.
\<close>

text \<open>
  Values of type \<^verbatim>\<open>any\<close> that come out of a JSON document. The component does no arithmetic
  on them; the one operation it applies is \<^verbatim>\<open>JSON.stringify\<close>. A number is therefore kept as the
  decimal text that JavaScript prints for it (\<^verbatim>\<open>1\<close>, \<^verbatim>\<open>0.5\<close>, \<^verbatim>\<open>1e+21\<close>), which is what
  \<^verbatim>\<open>JSON.stringify\<close> gives for a number.
\<close>

datatype json = JNull | JBool bool | JNum string | JStr string | JArr "json list"
  | JObj "(string \<times> json) list"

text \<open>The field \<^verbatim>\<open>type?: string | string[]\<close>.\<close>

datatype type_field = TypeName string | TypeNames "string list"

text \<open>
  \<^verbatim>\<open>type SchemaProperty\<close>. An optional field is an \<open>option\<close>; \<open>None\<close> stands for a key that is
  absent or holds \<^verbatim>\<open>undefined\<close>. An object with string keys is an association list in
  insertion order.
\<close>

datatype SchemaProperty = SchemaProperty
  (deprecated: "bool option")
  (description: "string option")
  (type: "type_field option")
  (pattern: "string option")
  (title: "string option")
  (items: "json option")
  (properties: "(string \<times> SchemaProperty) list option")
  (enum_f: "string list option")
  (default_f: "json option")
  (allOf: "SchemaProperty list option")
  (examples: "string list option")
  (optionsAre: "string list option")
  (note_f: "string option")

type_synonym Properties = "(string \<times> SchemaProperty) list"

record Schema =
  title_s :: string
  description_s :: string
  type_s :: string
  properties_s :: Properties
  required_s :: "string list option"

definition defaultSchema :: Schema where
  "defaultSchema = \<lparr>title_s = ''ConfigSchema'',
     description_s = ''The configuration schema for Nebari.'',
     type_s = ''object'', properties_s = [], required_s = None\<rparr>"

text \<open>The property with no field set, \<^verbatim>\<open>{}\<close>.\<close>

definition empty_property :: SchemaProperty where
  "empty_property =
     SchemaProperty None None None None None None None None None None None None None"

definition defaultSchema2 :: Schema where
  "defaultSchema2 = \<lparr>title_s = ''Nebari Configuration'',
     description_s = ''The configuration schema for Nebari.'',
     type_s = ''object'',
     properties_s = [(''deprecated'',
       SchemaProperty (Some True) None None None None None None None None None None None None)],
     required_s = None\<rparr>"

section \<open>JavaScript primitives used by the component\<close>

subsection \<open>Truthiness\<close>

definition truthy_string :: "string option \<Rightarrow> bool" where
  "truthy_string s = (case s of None \<Rightarrow> False | Some t \<Rightarrow> t \<noteq> [])"

definition truthy_bool :: "bool option \<Rightarrow> bool" where
  "truthy_bool b = (case b of None \<Rightarrow> False | Some t \<Rightarrow> t)"

text \<open>Arrays and objects are truthy even when empty.\<close>

definition truthy_object :: "'a option \<Rightarrow> bool" where
  "truthy_object x = (case x of None \<Rightarrow> False | Some _ \<Rightarrow> True)"

definition truthy_type :: "type_field option \<Rightarrow> bool" where
  "truthy_type t = (case t of None \<Rightarrow> False | Some (TypeName s) \<Rightarrow> s \<noteq> []
     | Some (TypeNames _) \<Rightarrow> True)"

subsection \<open>Object spread and \<^verbatim>\<open>Object.entries\<close>\<close>

text \<open>One field of \<^verbatim>\<open>{...a, ...b}\<close>: the value in \<open>b\<close> when the key is there, else that in \<open>a\<close>.\<close>

definition spread_field :: "'a option \<Rightarrow> 'a option \<Rightarrow> 'a option" where
  "spread_field a b = (case b of None \<Rightarrow> a | Some v \<Rightarrow> Some v)"

text \<open>
  \<^verbatim>\<open>{...a, ...b}\<close> on objects with arbitrary keys: each key of \<open>b\<close>, in order, overwrites
  the entry of \<open>a\<close> in place or is appended.
\<close>

definition spread_entries :: "('k \<times> 'v) list \<Rightarrow> ('k \<times> 'v) list \<Rightarrow> ('k \<times> 'v) list" where
  "spread_entries a b = foldl (\<lambda>m (k, v). AList.update k v m) a b"

text \<open>Spreading \<^verbatim>\<open>undefined\<close> contributes no key.\<close>

definition own_entries :: "('k \<times> 'v) list option \<Rightarrow> ('k \<times> 'v) list" where
  "own_entries m = (case m of None \<Rightarrow> [] | Some es \<Rightarrow> es)"

definition is_digit :: "char \<Rightarrow> bool" where
  "is_digit c = (48 \<le> (of_char c :: nat) \<and> (of_char c :: nat) \<le> 57)"

definition int_of_digits :: "string \<Rightarrow> int" where
  "int_of_digits s = foldl (\<lambda>n c. 10 * n + (of_char c - 48)) 0 s"

text \<open>A key that is a canonical array index is enumerated before all other keys.\<close>

definition is_array_index :: "string \<Rightarrow> bool" where
  "is_array_index k = (k \<noteq> [] \<and> list_all is_digit k \<and> (k = ''0'' \<or> hd k \<noteq> CHR ''0'')
     \<and> int_of_digits k < 4294967295)"

definition Object_entries :: "(string \<times> 'v) list \<Rightarrow> (string \<times> 'v) list" where
  "Object_entries obj =
     sort_key (\<lambda>(k, v). int_of_digits k) (filter (\<lambda>(k, v). is_array_index k) obj)
     @ filter (\<lambda>(k, v). \<not> is_array_index k) obj"

text \<open>
  \<^verbatim>\<open>Array.prototype.sort()\<close> without a comparator, on entries \<^verbatim>\<open>[key, value]\<close> whose value is
  an object: each entry is compared as the string \<^verbatim>\<open>key + ",[object Object]"\<close>.
\<close>

definition entry_string :: "string \<times> 'v \<Rightarrow> string" where
  "entry_string e = fst e @ '',[object Object]''"

definition sort_entries :: "(string \<times> 'v) list \<Rightarrow> (string \<times> 'v) list" where
  "sort_entries es = sort_key entry_string es"

subsection \<open>Strings\<close>

text \<open>\<^verbatim>\<open>key.replace(/_/g, "-")\<close> and \<^verbatim>\<open>name.replace("_", "-")\<close>.\<close>

definition replace_all_underscores :: "string \<Rightarrow> string" where
  "replace_all_underscores s = map (\<lambda>c. if c = CHR ''_'' then CHR ''-'' else c) s"

fun replace_first_underscore :: "string \<Rightarrow> string" where
  "replace_first_underscore [] = []"
| "replace_first_underscore (c # cs) =
     (if c = CHR ''_'' then CHR ''-'' # cs else c # replace_first_underscore cs)"

fun join :: "string \<Rightarrow> string list \<Rightarrow> string" where
  "join sep [] = []"
| "join sep [x] = x"
| "join sep (x # y # zs) = x @ sep @ join sep (y # zs)"

fun split_on :: "char \<Rightarrow> string \<Rightarrow> string list" where
  "split_on d [] = [[]]"
| "split_on d (c # cs) =
     (if c = d then [] # split_on d cs
      else (case split_on d cs of [] \<Rightarrow> [[c]] | w # ws \<Rightarrow> (c # w) # ws))"

text \<open>The class \<^verbatim>\<open>\s\<close>, which is also what \<^verbatim>\<open>trim\<close> strips.\<close>

definition isWhiteSpace :: "char \<Rightarrow> bool" where
  "isWhiteSpace c = (c \<in> set [CHR 0x09, CHR 0x0A, CHR 0x0B, CHR 0x0C, CHR 0x0D, CHR 0x20, CHR 0xA0])"

definition trim :: "string \<Rightarrow> string" where
  "trim s = rev (dropWhile isWhiteSpace (rev (dropWhile isWhiteSpace s)))"

definition starts_with :: "string \<Rightarrow> string \<Rightarrow> bool" where
  "starts_with pat s = (take (length pat) s = pat)"

text \<open>Index of the first occurrence of \<open>pat\<close> in \<open>s\<close>.\<close>

fun find_sub :: "string \<Rightarrow> string \<Rightarrow> nat option" where
  "find_sub pat [] = (if pat = [] then Some 0 else None)"
| "find_sub pat (c # cs) =
     (if starts_with pat (c # cs) then Some 0 else map_option Suc (find_sub pat cs))"

text \<open>\<^verbatim>\<open>String.prototype.includes\<close>.\<close>

definition String_includes :: "string \<Rightarrow> string \<Rightarrow> bool" where
  "String_includes s pat = (find_sub pat s \<noteq> None)"

definition digit_char :: "nat \<Rightarrow> char" where
  "digit_char d = char_of (48 + d)"

text \<open>The decimal text of a non-negative integer, as a template literal prints it.\<close>

fun string_of_nat :: "nat \<Rightarrow> string" where
  "string_of_nat n =
     (if n < 10 then [digit_char n] else string_of_nat (n div 10) @ [digit_char (n mod 10)])"

declare string_of_nat.simps [simp del]

subsection \<open>\<^verbatim>\<open>JSON.stringify\<close>\<close>

definition hex_char :: "nat \<Rightarrow> char" where
  "hex_char d = (if d < 10 then char_of (48 + d) else char_of (87 + d))"

definition quote_char :: "char \<Rightarrow> string" where
  "quote_char c =
     (if c = CHR 0x08 then [CHR 0x5C, CHR ''b'']
      else if c = CHR 0x09 then [CHR 0x5C, CHR ''t'']
      else if c = CHR 0x0A then [CHR 0x5C, CHR ''n'']
      else if c = CHR 0x0C then [CHR 0x5C, CHR ''f'']
      else if c = CHR 0x0D then [CHR 0x5C, CHR ''r'']
      else if c = CHR 0x22 then [CHR 0x5C, CHR 0x22]
      else if c = CHR 0x5C then [CHR 0x5C, CHR 0x5C]
      else if (of_char c :: nat) < 32
        then [CHR 0x5C, CHR ''u'', CHR ''0'', CHR ''0'',
              hex_char ((of_char c :: nat) div 16), hex_char ((of_char c :: nat) mod 16)]
      else [c])"

definition quote_string :: "string \<Rightarrow> string" where
  "quote_string s = [CHR 0x22] @ concat (map quote_char s) @ [CHR 0x22]"

lemma set_Object_entries: "set (Object_entries obj) = set obj"
  by (auto simp: Object_entries_def)

function JSON_stringify :: "json \<Rightarrow> string" where
  "JSON_stringify JNull = ''null''"
| "JSON_stringify (JBool b) = (if b then ''true'' else ''false'')"
| "JSON_stringify (JNum printed) = printed"
| "JSON_stringify (JStr s) = quote_string s"
| "JSON_stringify (JArr vs) = ''['' @ join '','' (map JSON_stringify vs) @ '']''"
| "JSON_stringify (JObj kvs) =
     ''{'' @ join '','' (map (\<lambda>(k, v). quote_string k @ '':'' @ JSON_stringify v)
                            (Object_entries kvs)) @ ''}''"
  by pat_completeness auto
termination
proof (relation "measure size")
  fix kvs :: "(string \<times> json) list" and x k v
  assume "x \<in> set (Object_entries kvs)" and "(k, v) = x"
  then have "(k, v) \<in> set kvs"
    by (simp add: set_Object_entries)
  then have "size_prod (\<lambda>_. 0) size (k, v) \<le> size_list (size_prod (\<lambda>_. 0) size) kvs"
    by (rule size_list_estimation') simp
  then show "(v, JObj kvs) \<in> measure size"
    by simp
next
  fix vs :: "json list" and x
  assume "x \<in> set vs"
  then have "size x \<le> size_list size vs"
    by (rule size_list_estimation') simp
  then show "(x, JArr vs) \<in> measure size"
    by simp
qed simp

section \<open>Composition flattener: \<^verbatim>\<open>mergeAllOf\<close>\<close>

text \<open>\<^verbatim>\<open>{ ...property, allOf: undefined }\<close>.\<close>

definition without_allOf :: "SchemaProperty \<Rightarrow> SchemaProperty" where
  "without_allOf p = SchemaProperty (deprecated p) (description p) (type p) (pattern p)
     (title p) (items p) (properties p) (enum_f p) (default_f p) None (examples p)
     (optionsAre p) (note_f p)"

text \<open>
  The body of the reducer,
  \<^verbatim>\<open>{ ...acc, ...mergeAllOf(cur), properties: { ...acc.properties, ...cur.properties } }\<close>,
  with \<open>flat\<close> standing for \<^verbatim>\<open>mergeAllOf(cur)\<close>. The \<^verbatim>\<open>properties\<close> key is written last, from
  the accumulator and from \<open>cur\<close> itself.
\<close>

definition merge_fragment ::
  "SchemaProperty \<Rightarrow> SchemaProperty \<Rightarrow> SchemaProperty \<Rightarrow> SchemaProperty" where
  "merge_fragment acc flat cur = SchemaProperty
     (spread_field (deprecated acc) (deprecated flat))
     (spread_field (description acc) (description flat))
     (spread_field (type acc) (type flat))
     (spread_field (pattern acc) (pattern flat))
     (spread_field (title acc) (title flat))
     (spread_field (items acc) (items flat))
     (Some (spread_entries (own_entries (properties acc)) (own_entries (properties cur))))
     (spread_field (enum_f acc) (enum_f flat))
     (spread_field (default_f acc) (default_f flat))
     (spread_field (allOf acc) (allOf flat))
     (spread_field (examples acc) (examples flat))
     (spread_field (optionsAre acc) (optionsAre flat))
     (spread_field (note_f acc) (note_f flat))"

lemma fragment_smaller: "allOf p = Some frs \<Longrightarrow> x \<in> set frs \<Longrightarrow> size x < size p"
  by (cases p) (auto dest!: size_list_estimation'[where f=size and y="size x"]
      simp: less_Suc_eq_le)

function mergeAllOf :: "SchemaProperty \<Rightarrow> SchemaProperty" where
  "mergeAllOf property = (case allOf property of
       None \<Rightarrow> property
     | Some frs \<Rightarrow>
         foldl (\<lambda>acc cur. merge_fragment acc (mergeAllOf cur) cur) (without_allOf property) frs)"
  by pat_completeness auto
termination
  by (relation "measure size") (auto simp: fragment_smaller)

declare mergeAllOf.simps [simp del]

section \<open>Example content splitter: \<^verbatim>\<open>parseContent\<close>\<close>

datatype error = TypeError string

datatype js_number = Num int | Infinity

definition Math_min :: "js_number \<Rightarrow> js_number \<Rightarrow> js_number" where
  "Math_min a b = (case a of Infinity \<Rightarrow> b
     | Num x \<Rightarrow> (case b of Infinity \<Rightarrow> Num x | Num y \<Rightarrow> Num (min x y)))"

text \<open>\<^verbatim>\<open>line.search(/\S/)\<close>: the index of the first non-blank character, or \<open>-1\<close>.\<close>

definition search_nonspace :: "string \<Rightarrow> int" where
  "search_nonspace line =
     (if list_all isWhiteSpace line then - 1 else int (length (takeWhile isWhiteSpace line)))"

text \<open>\<^verbatim>\<open>line.substring(n)\<close>: a negative start counts as 0, one past the end as the length.\<close>

definition substring :: "js_number \<Rightarrow> string \<Rightarrow> string" where
  "substring n line = (case n of Infinity \<Rightarrow> [] | Num i \<Rightarrow> drop (nat i) line)"

definition newline :: char where
  "newline = CHR 0x0A"

text \<open>
  \<^verbatim>\<open>input.match(/```yaml[\s\S]*?```/)\<close>: the leftmost opening fence followed by the nearest
  closing fence; the result is the index of the match and the matched text.
\<close>

definition codeRegex_match :: "string \<Rightarrow> (nat \<times> string) option" where
  "codeRegex_match input =
     (case find_sub ''```yaml'' input of
        None \<Rightarrow> None
      | Some i \<Rightarrow>
          (case find_sub ''```'' (drop (i + 7) input) of
             None \<Rightarrow> None
           | Some j \<Rightarrow> Some (i, take (7 + j + 3) (drop i input))))"

text \<open>\<^verbatim>\<open>.replace(/```yaml|```/g, '')\<close>.\<close>

fun strip_fences :: "string \<Rightarrow> string" where
  "strip_fences [] = []"
| "strip_fences (c # cs) =
     (if starts_with ''```yaml'' (c # cs) then strip_fences (drop 6 cs)
      else if starts_with ''```'' (c # cs) then strip_fences (drop 2 cs)
      else c # strip_fences cs)"

record Parsed =
  briefing :: string
  codeBlock :: string

text \<open>
  The argument is \<open>None\<close> when the caller passes \<^verbatim>\<open>undefined\<close>; \<^verbatim>\<open>input.match\<close> then throws.
\<close>

definition parseContent :: "string option \<Rightarrow> error + Parsed" where
  "parseContent arg =
     (case arg of
        None \<Rightarrow> Inl (TypeError ''Cannot read properties of undefined'')
      | Some input \<Rightarrow>
          (let codeMatch = codeRegex_match input;
               code = (case codeMatch of
                   None \<Rightarrow> []
                 | Some (i, m) \<Rightarrow>
                     (let trimmed = trim (strip_fences m);
                          lines = split_on newline trimmed;
                          minIndentation =
                            foldl (\<lambda>m line. Math_min m (Num (search_nonspace line))) Infinity
                              (filter (\<lambda>line. trim line \<noteq> []) lines)
                      in join [newline] (map (substring minIndentation) lines)));
               brief = trim (case codeMatch of
                   None \<Rightarrow> input
                 | Some (i, m) \<Rightarrow> take i input @ drop (i + length m) input)
           in Inr \<lparr>briefing = brief, codeBlock = code\<rparr>))"

section \<open>Render tree\<close>

text \<open>
  A JSX element is its tag or component name, its props and its children. A prop is a string, or
  the \<^verbatim>\<open>values\<close> array of \<^verbatim>\<open>Tabs\<close> (pairs of label and value). Props that only carry CSS
  are left out, except the strike-through of a deprecated name. An expression
  \<^verbatim>\<open>{cond && <x/>}\<close> whose condition is falsy contributes no child.
\<close>

datatype attr = Str string | TabValues "(string \<times> string) list"

datatype Node = Text string | Elem string "(string \<times> attr) list" "Node list"

text \<open>Running the render functions of a list of children; the first exception wins.\<close>

fun sequence :: "('e + 'a) list \<Rightarrow> 'e + 'a list" where
  "sequence [] = Inr []"
| "sequence (r # rs) =
     (case r of
        Inl e \<Rightarrow> Inl e
      | Inr x \<Rightarrow> (case sequence rs of Inl e \<Rightarrow> Inl e | Inr xs \<Rightarrow> Inr (x # xs)))"

text \<open>\<^verbatim>\<open>xs[i]\<close>, which is \<^verbatim>\<open>undefined\<close> out of range.\<close>

definition array_get :: "'a list \<Rightarrow> nat \<Rightarrow> 'a option" where
  "array_get xs i = (if i < length xs then Some (xs ! i) else None)"

definition Markdown :: "string \<Rightarrow> Node" where
  "Markdown text = Elem ''ReactMarkdown'' [] [Text text]"

definition strike :: "string \<Rightarrow> Node" where
  "strike name = Elem ''span'' [(''style'', Str ''textDecoration: line-through'')] [Text name]"

definition badge :: Node where
  "badge = Elem ''span'' [(''className'', Str ''badge badge--danger'')] [Text ''Deprecated'']"

section \<open>First variant of the component\<close>

subsection \<open>\<^verbatim>\<open>SchemaToc\<close> and \<^verbatim>\<open>PropertieTitle\<close>\<close>

definition toc_item :: "string \<times> SchemaProperty \<Rightarrow> Node" where
  "toc_item e = (case e of (key, value) \<Rightarrow>
     Elem ''li'' [(''key'', Str key)]
       [Elem ''a'' [(''href'', Str (''#'' @ replace_all_underscores key))]
          [if truthy_bool (deprecated value) then strike key else Text key]])"

definition SchemaToc :: "Schema \<Rightarrow> Node" where
  "SchemaToc schema =
     Elem ''ul'' [] (map toc_item (sort_entries (Object_entries (properties_s schema))))"

definition PropertieTitle :: "string \<Rightarrow> bool \<Rightarrow> bool option \<Rightarrow> Node" where
  "PropertieTitle ttl subHeading depr =
     Elem ''div'' []
       [Elem ''Heading'' [(''as'', Str (if subHeading then ''h3'' else ''h2'')),
                          (''id'', Str (replace_all_underscores ttl))]
          [Elem ''span'' []
             ([Text ttl, Text '' ''] @ (if truthy_bool depr then [badge] else []))]]"

subsection \<open>\<^verbatim>\<open>MarkdownCodeSeparator\<close>\<close>

definition example_body :: "Parsed \<Rightarrow> Node list" where
  "example_body p = [Elem ''ReactMarkdown'' [] [Text (briefing p)],
                     Elem ''pre'' [] [Text (codeBlock p)]]"

definition tab_value :: "nat \<Rightarrow> string" where
  "tab_value index = ''example-'' @ string_of_nat index"

definition tab_label :: "nat \<Rightarrow> string" where
  "tab_label index = ''Example '' @ string_of_nat (index + 1)"

text \<open>
  The argument is \<open>None\<close> when \<^verbatim>\<open>examples\<close> is not an array. The \<^verbatim>\<open>else\<close> branch is taken by
  every array of length at most one.
\<close>

definition MarkdownCodeSeparator :: "string list option \<Rightarrow> string \<Rightarrow> error + Node" where
  "MarkdownCodeSeparator arg inputKey =
     (case arg of
        None \<Rightarrow> Inr (Elem ''div'' [] [Text ''No examples provided''])
      | Some exs \<Rightarrow>
          if length exs > 1 then
            (case sequence (map (\<lambda>(index, example).
                     case parseContent (Some example) of
                       Inl e \<Rightarrow> Inl e
                     | Inr p \<Rightarrow> Inr (Elem ''TabItem''
                           [(''key'', Str (string_of_nat index)), (''value'', Str (tab_value index))]
                           [Elem ''div'' [] (example_body p)]))
                   (zip [0..<length exs] exs)) of
               Inl e \<Rightarrow> Inl e
             | Inr tabs \<Rightarrow> Inr (Elem ''Tabs''
                   [(''defaultValue'', Str ''example-0''),
                    (''values'', TabValues (map (\<lambda>index. (tab_label index, tab_value index))
                                              [0..<length exs]))]
                   tabs))
          else
            (case parseContent (array_get exs 0) of
               Inl e \<Rightarrow> Inl e
             | Inr p \<Rightarrow> Inr (Elem ''div'' [(''key'', Str inputKey)] (example_body p))))"

subsection \<open>\<^verbatim>\<open>PropertyContent\<close>\<close>

definition hasTableData :: "SchemaProperty \<Rightarrow> bool" where
  "hasTableData property =
     (truthy_type (type property) \<or> default_f property \<noteq> None \<or> truthy_object (enum_f property)
      \<or> truthy_object (optionsAre property) \<or> truthy_string (pattern property)
      \<or> truthy_bool (deprecated property))"

definition table_row :: "string \<Rightarrow> Node list \<Rightarrow> Node" where
  "table_row header cell = Elem ''tr'' [] [Elem ''th'' [] [Text header], Elem ''td'' [] cell]"

definition type_text :: "type_field \<Rightarrow> string" where
  "type_text t = (case t of TypeName s \<Rightarrow> s | TypeNames ts \<Rightarrow> join '', '' ts)"

text \<open>The children of \<^verbatim>\<open><tbody>\<close>.\<close>

definition table_rows :: "SchemaProperty \<Rightarrow> Node list" where
  "table_rows property =
     (if truthy_type (type property)
        then [table_row ''Type:'' [Elem ''code'' [] [Text (type_text (the (type property)))]]]
        else [])
     @ (case default_f property of
          None \<Rightarrow> []
        | Some d \<Rightarrow> [table_row ''Default:'' [Elem ''code'' [] [Text (JSON_stringify d)]]])
     @ (case enum_f property of
          None \<Rightarrow> []
        | Some vs \<Rightarrow> [table_row ''Available options:'' [Text (join '', '' vs)]])
     @ (case optionsAre property of
          None \<Rightarrow> []
        | Some vs \<Rightarrow> [table_row ''Options:'' [Text (join '', '' vs)]])
     @ (if truthy_string (pattern property)
        then [table_row ''Pattern:'' [Elem ''code'' [] [Text (the (pattern property))]]]
        else [])"

text \<open>The text of the template literal inside \<^verbatim>\<open><style>\<close>, line breaks and indentation included.\<close>

definition table_css :: string where
  "table_css =
     ''\<newline>                            .property-details tbody tr:nth-child(even) {''
     @ ''\<newline>                                background-color: var(--ifm-admonition-background-color);''
     @ ''\<newline>                            }''
     @ ''\<newline>                        ''"

definition details_table :: "SchemaProperty \<Rightarrow> Node" where
  "details_table property =
     Elem ''table'' [(''className'', Str ''property-details'')]
       [Elem ''style'' [] [Text table_css],
        Elem ''tbody'' [] (table_rows property)]"

definition PropertyContent :: "SchemaProperty \<Rightarrow> error + Node" where
  "PropertyContent property =
     (case (case examples property of
              None \<Rightarrow> Inr []
            | Some exs \<Rightarrow>
                (case MarkdownCodeSeparator (Some exs) ''examples'' of
                   Inl e \<Rightarrow> Inl e
                 | Inr n \<Rightarrow> Inr [Elem ''div'' [(''className'', Str ''property-examples'')] [n]])) of
        Inl e \<Rightarrow> Inl e
      | Inr examples_part \<Rightarrow>
          Inr (Elem ''div'' [(''className'', Str ''property-content'')]
            ((if truthy_string (description property)
                then [Elem ''div'' [(''className'', Str ''property-description'')]
                        [Elem ''ReactMarkdown'' [] [Text (the (description property))]]]
                else [])
             @ (if hasTableData property then [details_table property] else [])
             @ examples_part
             @ (if truthy_string (note_f property)
                then [Elem ''Admonition'' [(''type'', Str ''note'')]
                        [Markdown (the (note_f property))]]
                else []))))"

subsection \<open>\<^verbatim>\<open>PropertiesList\<close>\<close>

text \<open>
  The recursion goes through the entries of \<^verbatim>\<open>mergeAllOf(value).properties\<close>, each of which is
  a proper part of \<open>value\<close>; the lemmas below establish this for the termination proof.
\<close>

lemma own_entries_simps [simp]: "own_entries None = []" "own_entries (Some es) = es"
  by (simp_all add: own_entries_def)

lemma mergeAllOf_flat: "allOf p = None \<Longrightarrow> mergeAllOf p = p"
  by (simp add: mergeAllOf.simps)

lemma mergeAllOf_fold:
  "allOf p = Some frs \<Longrightarrow>
     mergeAllOf p =
       foldl (\<lambda>acc cur. merge_fragment acc (mergeAllOf cur) cur) (without_allOf p) frs"
  by (simp add: mergeAllOf.simps)

lemma set_update_subset: "set (AList.update k v m) \<subseteq> insert (k, v) (set m)"
  by (induction m) auto

lemma set_spread_entries: "set (spread_entries a b) \<subseteq> set a \<union> set b"
  unfolding spread_entries_def
proof (induction b arbitrary: a)
  case Nil
  then show ?case by simp
next
  case (Cons e b)
  obtain k v where e: "e = (k, v)" by (cases e)
  have "set (foldl (\<lambda>m (k, v). AList.update k v m) (AList.update k v a) b)
          \<subseteq> set (AList.update k v a) \<union> set b"
    by (rule Cons.IH)
  with set_update_subset[of k v a] show ?case
    by (auto simp: e)
qed

lemma fold_merge_entries:
  "set (own_entries (properties (foldl (\<lambda>acc cur. merge_fragment acc (f cur) cur) acc frs)))
     \<subseteq> set (own_entries (properties acc))
         \<union> (\<Union>cur \<in> set frs. set (own_entries (properties cur)))"
proof (induction frs arbitrary: acc)
  case Nil
  then show ?case by simp
next
  case (Cons cur frs)
  have "set (own_entries (properties (merge_fragment acc (f cur) cur)))
          \<subseteq> set (own_entries (properties acc)) \<union> set (own_entries (properties cur))"
    by (simp add: merge_fragment_def set_spread_entries)
  with Cons.IH[of "merge_fragment acc (f cur) cur"] show ?case
    by auto
qed

lemma own_entry_smaller:
  "(k, w) \<in> set (own_entries (properties p)) \<Longrightarrow> size w < size p"
proof (cases p)
  case (SchemaProperty x1 x2 x3 x4 x5 x6 x7 x8 x9 x10 x11 x12 x13)
  assume "(k, w) \<in> set (own_entries (properties p))"
  then obtain es where es: "x7 = Some es" "(k, w) \<in> set es"
    using SchemaProperty by (cases x7) auto
  from es(2) have "size_prod (\<lambda>_. 0) size (k, w) \<le> size_list (size_prod (\<lambda>_. 0) size) es"
    by (rule size_list_estimation') simp
  then show ?thesis
    using SchemaProperty es(1) by simp
qed

lemma merged_entry_smaller:
  assumes "(k, w) \<in> set (own_entries (properties (mergeAllOf v)))"
  shows "size w < size v"
proof (cases "allOf v")
  case None
  with assms show ?thesis
    by (simp add: mergeAllOf_flat own_entry_smaller)
next
  case (Some frs)
  with assms fold_merge_entries[of mergeAllOf "without_allOf v" frs]
  have "(k, w) \<in> set (own_entries (properties (without_allOf v)))
          \<or> (\<exists>cur \<in> set frs. (k, w) \<in> set (own_entries (properties cur)))"
    by (auto simp: mergeAllOf_fold)
  then show ?thesis
  proof
    assume "(k, w) \<in> set (own_entries (properties (without_allOf v)))"
    then have "(k, w) \<in> set (own_entries (properties v))"
      by (simp add: without_allOf_def)
    then show ?thesis by (rule own_entry_smaller)
  next
    assume "\<exists>cur \<in> set frs. (k, w) \<in> set (own_entries (properties cur))"
    then obtain cur where "cur \<in> set frs" "(k, w) \<in> set (own_entries (properties cur))"
      by blast
    then have "size w < size cur" "size cur < size v"
      using Some by (auto intro: own_entry_smaller fragment_smaller)
    then show ?thesis by simp
  qed
qed

lemma size_property_pos: "0 < size (p :: SchemaProperty)"
  by (cases p) simp

text \<open>The size of the largest value of an object, the measure of the recursion.\<close>

definition tallest :: "Properties \<Rightarrow> nat" where
  "tallest props = Max (insert 0 (size ` snd ` set props))"

lemma tallest_decreases:
  assumes "(key, value) \<in> set (Object_entries props)"
  shows "tallest (own_entries (properties (mergeAllOf value))) < tallest props"
proof -
  have "(key, value) \<in> set props"
    using assms by (simp add: set_Object_entries)
  then have "size value \<le> tallest props"
    unfolding tallest_def by (intro Max_ge) (auto intro!: image_eqI[where x="(key, value)"])
  moreover have "tallest (own_entries (properties (mergeAllOf value))) < size value"
    unfolding tallest_def
    by (subst Max_less_iff) (auto dest: merged_entry_smaller simp: size_property_pos)
  ultimately show ?thesis by simp
qed

text \<open>The \<^verbatim>\<open><div key={key}>\<close> of one property; \<open>extra\<close> is what the conditional yields.\<close>

definition property_section :: "string \<Rightarrow> bool \<Rightarrow> SchemaProperty \<Rightarrow> Node \<Rightarrow> Node list \<Rightarrow> Node" where
  "property_section key sub_heading value content extra =
     Elem ''div'' [(''key'', Str key)]
       ([PropertieTitle key sub_heading (deprecated value), content] @ extra)"

definition Details :: "Node \<Rightarrow> Node" where
  "Details child = Elem ''Details'' [(''summary'', Str ''Available Options'')] [child]"

function PropertiesList :: "Properties \<Rightarrow> bool \<Rightarrow> error + Node" where
  "PropertiesList props sub_heading =
     (case sequence (map (\<lambda>(key, value).
              case PropertyContent value of
                Inl e \<Rightarrow> Inl e
              | Inr content \<Rightarrow>
                  (case allOf value of
                     None \<Rightarrow> Inr (property_section key sub_heading value content [])
                   | Some frs \<Rightarrow>
                       if length frs > 0 then
                         (if truthy_object (properties (frs ! 0)) then
                            (case PropertiesList (own_entries (properties (mergeAllOf value)))
                                    True of
                               Inl e \<Rightarrow> Inl e
                             | Inr nested \<Rightarrow>
                                 Inr (property_section key sub_heading value content
                                        [Details nested]))
                          else Inr (property_section key sub_heading value content []))
                       else Inr (property_section key sub_heading value content [])))
            (Object_entries props)) of
        Inl e \<Rightarrow> Inl e
      | Inr children \<Rightarrow> Inr (Elem ''Fragment'' [] children))"
  by pat_completeness auto
termination
  by (relation "measure (\<lambda>(props, sub_heading). tallest props)")
    (auto simp: tallest_decreases)

declare PropertiesList.simps [simp del]

subsection \<open>\<^verbatim>\<open>useSchema\<close> and \<^verbatim>\<open>NebariConfig\<close>\<close>

text \<open>
  What \<^verbatim>\<open>fetch\<close> resolves to: the flag \<^verbatim>\<open>ok\<close>, the status, and what \<^verbatim>\<open>response.json()\<close> gives,
  the parsed document or the message of the error it throws.
\<close>

record 'j Response =
  ok :: bool
  status :: nat
  statusText :: string
  json_result :: "string + 'j"

record hook_state =
  schema :: Schema
  loading :: bool
  error :: "string option"

definition initial_state :: hook_state where
  "initial_state = \<lparr>schema = defaultSchema, loading = True, error = None\<rparr>"

text \<open>
  \<^verbatim>\<open>fetchSchema\<close>, called with \<^verbatim>\<open>useLocal = false\<close>. The reference resolver is a parameter; it
  and \<^verbatim>\<open>fetch\<close> give \<open>Inl\<close> of the message of the error they throw.
\<close>

definition fetchSchema ::
  "('j \<Rightarrow> string + Schema) \<Rightarrow> string + 'j Response \<Rightarrow> hook_state \<Rightarrow> hook_state" where
  "fetchSchema resolve fetched st =
     (let outcome =
            (case fetched of
               Inl msg \<Rightarrow> Inl msg
             | Inr response \<Rightarrow>
                 if \<not> ok response then
                   Inl (''Failed to fetch schema: '' @ string_of_nat (status response) @ '' ''
                        @ statusText response)
                 else
                   (case json_result response of
                      Inl msg \<Rightarrow> Inl msg
                    | Inr json \<Rightarrow> resolve json));
          st' = (case outcome of
               Inl msg \<Rightarrow> st\<lparr>error := Some msg\<rparr>
             | Inr resolved \<Rightarrow> st\<lparr>schema := resolved\<rparr>)
      in st'\<lparr>loading := False\<rparr>)"

definition info_admonition :: Node where
  "info_admonition = Elem ''Admonition'' [(''type'', Str ''info'')]
     [Text ''This documentation is autogenerated from the Nebari configuration JSON Schema.'',
      Elem ''a'' [] [Text ''View the original schema''], Text ''.'']"

definition NebariConfig :: "hook_state \<Rightarrow> error + Node" where
  "NebariConfig st =
     (if loading st then Inr (Elem ''p'' [] [Text ''Loading schema...''])
      else if truthy_string (error st) then
        Inr (Elem ''p'' [] [Text ''Error loading schema: '', Text (the (error st))])
      else
        (case PropertiesList (properties_s (schema st)) False of
           Inl e \<Rightarrow> Inl e
         | Inr list \<Rightarrow>
             Inr (Elem ''Fragment'' []
               [info_admonition, SchemaToc (schema st), Markdown (description_s (schema st)),
                list])))"

section \<open>Second variant of the component\<close>

definition initial_state2 :: hook_state where
  "initial_state2 = \<lparr>schema = defaultSchema2, loading = True, error = None\<rparr>"

definition fetchSchema2 ::
  "('j \<Rightarrow> string + Schema) \<Rightarrow> string + 'j Response \<Rightarrow> hook_state \<Rightarrow> hook_state" where
  "fetchSchema2 resolve fetched st =
     (let outcome =
            (case fetched of
               Inl msg \<Rightarrow> Inl msg
             | Inr response \<Rightarrow>
                 (case json_result response of
                    Inl msg \<Rightarrow> Inl msg
                  | Inr rawSchema \<Rightarrow> resolve rawSchema));
          st' = (case outcome of
               Inl msg \<Rightarrow> st\<lparr>error := Some msg\<rparr>
             | Inr resolved \<Rightarrow> st\<lparr>schema := resolved\<rparr>)
      in st'\<lparr>loading := False\<rparr>)"

definition SchemaToc2 :: "Properties \<Rightarrow> Node" where
  "SchemaToc2 props = Elem ''ul'' [] (map toc_item (sort_entries (Object_entries props)))"

definition PropertyDetail :: "string \<Rightarrow> SchemaProperty \<Rightarrow> nat \<Rightarrow> Node" where
  "PropertyDetail name property level =
     Elem ''Fragment'' [(''key'', Str name)]
       ([Elem ''a'' [(''id'', Str (replace_first_underscore name))] [],
         Elem ''Heading'' [(''as'', Str (''h'' @ string_of_nat (level + 2))),
                            (''id'', Str (replace_all_underscores name))]
           [if truthy_bool (deprecated property) then strike name else Text name]]
        @ (if truthy_bool (deprecated property) then [Elem ''p'' [] [badge]] else [])
        @ (if truthy_string (description property)
           then [Markdown (the (description property))] else []))"

definition PropertiesList2 :: "Properties \<Rightarrow> Node" where
  "PropertiesList2 props =
     Elem ''Fragment'' [] (map (\<lambda>(key, value). PropertyDetail key value 1) (Object_entries props))"

definition NebariConfig2 :: "hook_state \<Rightarrow> Node" where
  "NebariConfig2 st =
     (if loading st then Elem ''p'' [] [Text ''Loading schema...'']
      else if truthy_string (error st) then
        Elem ''p'' [] [Text ''Error loading schema: '', Text (the (error st))]
      else
        Elem ''Fragment'' []
          [info_admonition, SchemaToc2 (properties_s (schema st)),
           Markdown (description_s (schema st)), PropertiesList2 (properties_s (schema st))])"

section \<open>Observations on results, and the inputs used as examples\<close>

text \<open>
  The rule the specification gives for scalar fields, in its own words: the last fragment that
  has the field wins, and when no fragment has it the value of the property itself stays.
\<close>

definition last_fragment_wins ::
  "(SchemaProperty \<Rightarrow> 'a option) \<Rightarrow> SchemaProperty \<Rightarrow> SchemaProperty list \<Rightarrow> 'a option" where
  "last_fragment_wins field base flats =
     (case filter (\<lambda>f. field f \<noteq> None) flats of
        [] \<Rightarrow> field base
      | f # fs \<Rightarrow> field (last (f # fs)))"

text \<open>\<^verbatim>\<open>{allOf: [{type: "string"}, {type: "number", default: 1}]}\<close>\<close>

definition string_then_number :: SchemaProperty where
  "string_then_number = SchemaProperty None None None None None None None None None
     (Some [SchemaProperty None None (Some (TypeName ''string'')) None None None None None None
              None None None None,
            SchemaProperty None None (Some (TypeName ''number'')) None None None None None
              (Some (JNum ''1'')) None None None None])
     None None None"

text \<open>\<^verbatim>\<open>{description: "d", type: "string"}\<close>, and the same with \<^verbatim>\<open>allOf: []\<close> added.\<close>

definition plain_string :: SchemaProperty where
  "plain_string = SchemaProperty None (Some ''d'') (Some (TypeName ''string'')) None None None
     None None None None None None None"

definition typed_empty_allOf :: SchemaProperty where
  "typed_empty_allOf = SchemaProperty None (Some ''d'') (Some (TypeName ''string'')) None None
     None None None None (Some []) None None None"

text \<open>
  \<^verbatim>\<open>{properties: {a: {}}}\<close>, \<^verbatim>\<open>{allOf: [{properties: {a: {}}}]}\<close> and
  \<^verbatim>\<open>{allOf: [{allOf: [{properties: {a: {}}}]}]}\<close>.
\<close>

definition leaf_a :: SchemaProperty where
  "leaf_a = SchemaProperty None None None None None None (Some [(''a'', empty_property)])
     None None None None None None"

definition inner_fragment :: SchemaProperty where
  "inner_fragment = SchemaProperty None None None None None None None None None
     (Some [leaf_a]) None None None"

definition nested_allOf :: SchemaProperty where
  "nested_allOf = SchemaProperty None None None None None None None None None
     (Some [inner_fragment]) None None None"

text \<open>\<^verbatim>\<open>{allOf: [{properties: {a: X}}, {properties: {b: Y}}]}\<close>\<close>

definition two_fragments :: "SchemaProperty \<Rightarrow> SchemaProperty \<Rightarrow> SchemaProperty" where
  "two_fragments X Y = SchemaProperty None None None None None None None None None
     (Some [SchemaProperty None None None None None None (Some [(''a'', X)]) None None None
              None None None,
            SchemaProperty None None None None None None (Some [(''b'', Y)]) None None None
              None None None])
     None None None"

text \<open>The example string of the specification.\<close>

definition example_input :: string where
  "example_input =
     ''Intro text.\<newline>```yaml\<newline>  foo: 1\<newline>    bar: 2\<newline>```''"

text \<open>\<^verbatim>\<open>{examples: []}\<close>\<close>

definition no_examples :: SchemaProperty where
  "no_examples = SchemaProperty None None None None None None None None None None (Some [])
     None None"

text \<open>
  Two responses with status 404: one whose body is a schema document without references (the
  document \<open>defaultSchema\<close>), one whose body is the text \<^verbatim>\<open>404: Not Found\<close>, on which
  \<^verbatim>\<open>response.json()\<close> throws. A document without references has nothing to resolve: the
  resolver gives it back as it is.
\<close>

definition not_found_document :: "Schema Response" where
  "not_found_document = \<lparr>ok = False, status = 404, statusText = ''Not Found'',
     json_result = Inr defaultSchema\<rparr>"

definition not_found_text :: "Schema Response" where
  "not_found_text = \<lparr>ok = False, status = 404, statusText = ''Not Found'',
     json_result = Inl ''Unexpected non-whitespace character after JSON at position 3''\<rparr>"

definition resolve_plain :: "Schema \<Rightarrow> string + Schema" where
  "resolve_plain document = Inr document"

text \<open>Reading a render tree: children, tag, the \<^verbatim>\<open>key\<close> prop, and the keys of the children.\<close>

definition children :: "Node \<Rightarrow> Node list" where
  "children n = (case n of Text _ \<Rightarrow> [] | Elem _ _ cs \<Rightarrow> cs)"

definition tag_of :: "Node \<Rightarrow> string" where
  "tag_of n = (case n of Text _ \<Rightarrow> [] | Elem t _ _ \<Rightarrow> t)"

definition key_of :: "Node \<Rightarrow> string option" where
  "key_of n = (case n of Text _ \<Rightarrow> None
     | Elem _ attrs _ \<Rightarrow> (case map_of attrs ''key'' of Some (Str k) \<Rightarrow> Some k | _ \<Rightarrow> None))"

definition child_keys :: "Node \<Rightarrow> string option list" where
  "child_keys n = map key_of (children n)"

text \<open>Some node of the tree, the root included, satisfies \<open>P\<close>.\<close>

fun exists_node :: "(Node \<Rightarrow> bool) \<Rightarrow> Node \<Rightarrow> bool" where
  "exists_node P (Text s) = P (Text s)"
| "exists_node P (Elem t attrs cs) = (P (Elem t attrs cs) \<or> list_ex (exists_node P) cs)"

definition is_struck :: "Node \<Rightarrow> bool" where
  "is_struck n = (case n of Text _ \<Rightarrow> False
     | Elem _ attrs _ \<Rightarrow> map_of attrs ''style'' = Some (Str ''textDecoration: line-through''))"

definition struck_through :: "Node \<Rightarrow> bool" where
  "struck_through n = exists_node is_struck n"

definition has_badge :: "Node \<Rightarrow> bool" where
  "has_badge n = exists_node (\<lambda>m. m = badge) n"

text \<open>The tables among the children of a node, and the rows of a table.\<close>

definition tables :: "Node \<Rightarrow> Node list" where
  "tables n = filter (\<lambda>c. tag_of c = ''table'') (children n)"

definition rows :: "Node \<Rightarrow> Node list" where
  "rows t = concat (map children (filter (\<lambda>c. tag_of c = ''tbody'') (children t)))"

text \<open>
  How many of the five fields \<open>type\<close>, \<open>default\<close>, \<open>enum\<close>, \<open>optionsAre\<close>, \<open>pattern\<close> a property
  sets to a value that JavaScript takes as true (for \<open>default\<close>: to any value).
\<close>

definition count_details :: "SchemaProperty \<Rightarrow> nat" where
  "count_details p = length (filter id
     [truthy_type (type p), default_f p \<noteq> None, enum_f p \<noteq> None, optionsAre p \<noteq> None,
      truthy_string (pattern p)])"

text \<open>\<open>allOf\<close> is a non-empty array whose first fragment has a \<open>properties\<close> field.\<close>

definition first_fragment_has_properties :: "SchemaProperty \<Rightarrow> bool" where
  "first_fragment_has_properties value =
     (case allOf value of
        None \<Rightarrow> False
      | Some frs \<Rightarrow> (case frs of [] \<Rightarrow> False | f # _ \<Rightarrow> properties f \<noteq> None))"

text \<open>
  The section of one entry as the amended claim C3 describes it: the title and the content of
  the property, followed by the collapsible section exactly when the first fragment of \<open>allOf\<close>
  has a \<open>properties\<close> field; the section holds the render of the flattened properties.
\<close>

definition property_entry :: "bool \<Rightarrow> string \<times> SchemaProperty \<Rightarrow> error + Node" where
  "property_entry sub entry =
     (case entry of (key, value) \<Rightarrow>
        (case PropertyContent value of
           Inl e \<Rightarrow> Inl e
         | Inr content \<Rightarrow>
             if first_fragment_has_properties value then
               (case PropertiesList (own_entries (properties (mergeAllOf value))) True of
                  Inl e \<Rightarrow> Inl e
                | Inr nested \<Rightarrow> Inr (property_section key sub value content [Details nested]))
             else Inr (property_section key sub value content [])))"

text \<open>The texts of a tree in reading order, and those that stand inside a struck element.\<close>

fun all_texts :: "Node \<Rightarrow> string list" where
  "all_texts (Text s) = [s]"
| "all_texts (Elem t attrs cs) = concat (map all_texts cs)"

fun struck_texts :: "Node \<Rightarrow> string list" where
  "struck_texts (Text s) = []"
| "struck_texts (Elem t attrs cs) =
     (if is_struck (Elem t attrs cs) then concat (map all_texts cs)
      else concat (map struck_texts cs))"

text \<open>
  The header cell of a table row, and the headers the specification asks for: one for each
  of the five fields that is set, in the order type, default, enum, optionsAre, pattern.
\<close>

definition row_header :: "Node \<Rightarrow> string list" where
  "row_header row = concat (map all_texts (filter (\<lambda>c. tag_of c = ''th'') (children row)))"

definition expected_headers :: "SchemaProperty \<Rightarrow> string list" where
  "expected_headers p = map snd (filter fst
     [(truthy_type (type p), ''Type:''), (default_f p \<noteq> None, ''Default:''),
      (enum_f p \<noteq> None, ''Available options:''), (optionsAre p \<noteq> None, ''Options:''),
      (truthy_string (pattern p), ''Pattern:'')])"

text \<open>\<^verbatim>\<open>{zeta: {}, alpha: {}}\<close>\<close>

definition zeta_alpha :: Properties where
  "zeta_alpha = [(''zeta'', empty_property), (''alpha'', empty_property)]"

text \<open>
  \<^verbatim>\<open>{allOf: [{type: "string"}, {properties: {a: {}}}]}\<close> and \<^verbatim>\<open>{allOf: [{properties: {}}]}\<close>.
\<close>

definition options_in_second_fragment :: SchemaProperty where
  "options_in_second_fragment = SchemaProperty None None None None None None None None None
     (Some [SchemaProperty None None (Some (TypeName ''string'')) None None None None None None
              None None None None,
            SchemaProperty None None None None None None (Some [(''a'', empty_property)]) None
              None None None None None])
     None None None"

definition empty_options :: SchemaProperty where
  "empty_options = SchemaProperty None None None None None None None None None
     (Some [SchemaProperty None None None None None None (Some []) None None None None None
              None])
     None None None"

text \<open>\<^verbatim>\<open>{first: {allOf: [{properties: {}}]}, second: {allOf: [{properties: {a: {}}}]}}\<close>\<close>

definition two_with_options :: Properties where
  "two_with_options = [(''first'', empty_options), (''second'', inner_fragment)]"

text \<open>What \<open>PropertyContent\<close> gives for a property with no field set.\<close>

definition empty_content :: Node where
  "empty_content = Elem ''div'' [(''className'', Str ''property-content'')] []"

text \<open>\<^verbatim>\<open>{deprecated: true}\<close>\<close>

definition only_deprecated :: SchemaProperty where
  "only_deprecated = SchemaProperty (Some True) None None None None None None None None None
     None None None"

section \<open>Verified properties\<close>

subsection \<open>The flattener\<close>

lemma fold_allOf_None:
  "allOf acc = None \<Longrightarrow> (\<And>cur. cur \<in> set frs \<Longrightarrow> allOf (f cur) = None) \<Longrightarrow>
     allOf (foldl (\<lambda>acc cur. merge_fragment acc (f cur) cur) acc frs) = None"
  by (induction frs arbitrary: acc) (simp_all add: merge_fragment_def spread_field_def)

lemma allOf_mergeAllOf: "allOf (mergeAllOf p) = None"
proof (induction p rule: mergeAllOf.induct)
  case (1 property)
  show ?case
  proof (cases "allOf property")
    case None
    then show ?thesis by (simp add: mergeAllOf_flat)
  next
    case (Some frs)
    have "allOf (foldl (\<lambda>acc cur. merge_fragment acc (mergeAllOf cur) cur)
            (without_allOf property) frs) = None"
      by (rule fold_allOf_None) (simp_all add: without_allOf_def "1.IH"[OF Some])
    then show ?thesis by (simp add: mergeAllOf_fold[OF Some])
  qed
qed

lemma fold_scalar:
  assumes step: "\<And>acc flat cur.
      field (merge_fragment acc flat cur) = spread_field (field acc) (field flat)"
  shows "field (foldl (\<lambda>acc cur. merge_fragment acc (f cur) cur) acc frs)
           = last_fragment_wins field acc (map f frs)"
  unfolding last_fragment_wins_def
proof (induction frs rule: rev_induct)
  case Nil
  then show ?case by simp
next
  case (snoc cur frs)
  then show ?case
    by (auto simp: step spread_field_def split: option.splits list.splits)
qed

lemma mergeAllOf_scalar:
  assumes step: "\<And>acc flat cur.
      field (merge_fragment acc flat cur) = spread_field (field acc) (field flat)"
    and base: "field (without_allOf p) = field p"
    and frs: "allOf p = Some frs"
  shows "field (mergeAllOf p) = last_fragment_wins field p (map mergeAllOf frs)"
proof -
  have "field (mergeAllOf p) = last_fragment_wins field (without_allOf p) (map mergeAllOf frs)"
    unfolding mergeAllOf_fold[OF frs] by (rule fold_scalar) (rule step)
  also have "\<dots> = last_fragment_wins field p (map mergeAllOf frs)"
    by (simp add: last_fragment_wins_def base cong: list.case_cong)
  finally show ?thesis .
qed

lemma flat_fragments_unchanged:
  "(\<And>f. f \<in> set frs \<Longrightarrow> allOf f = None) \<Longrightarrow> map mergeAllOf frs = frs"
  by (induction frs) (simp_all add: mergeAllOf_flat)

text \<open>
  Claim C5. When \<open>mergeAllOf\<close> merges the fragments of \<open>allOf\<close> in array order, each of the
  fields \<open>type\<close>, \<open>default\<close>, \<open>enum\<close>, \<open>description\<close>, \<open>pattern\<close>, \<open>optionsAre\<close>, \<open>note\<close>,
  \<open>title\<close> and \<open>deprecated\<close> of the result is the value of the last flattened fragment in which
  the field is present; a fragment in which it is absent leaves the value accumulated so far,
  and when no fragment has the field the value of the property itself stays. For
  \<^verbatim>\<open>allOf = [{type: "string"}, {type: "number", default: 1}]\<close> the type is \<^verbatim>\<open>"number"\<close> and the
  default is \<open>1\<close>.
\<close>

theorem scalar_fields_last_fragment_wins:
  assumes "allOf p = Some frs"
  shows "type (mergeAllOf p) = last_fragment_wins type p (map mergeAllOf frs)
       \<and> default_f (mergeAllOf p) = last_fragment_wins default_f p (map mergeAllOf frs)
       \<and> enum_f (mergeAllOf p) = last_fragment_wins enum_f p (map mergeAllOf frs)
       \<and> description (mergeAllOf p) = last_fragment_wins description p (map mergeAllOf frs)
       \<and> pattern (mergeAllOf p) = last_fragment_wins pattern p (map mergeAllOf frs)
       \<and> optionsAre (mergeAllOf p) = last_fragment_wins optionsAre p (map mergeAllOf frs)
       \<and> note_f (mergeAllOf p) = last_fragment_wins note_f p (map mergeAllOf frs)
       \<and> title (mergeAllOf p) = last_fragment_wins title p (map mergeAllOf frs)
       \<and> deprecated (mergeAllOf p) = last_fragment_wins deprecated p (map mergeAllOf frs)"
  by (intro conjI; rule mergeAllOf_scalar[OF _ _ assms];
      simp add: merge_fragment_def without_allOf_def)

theorem scalar_fields_last_fragment_wins_witness:
  "type (mergeAllOf string_then_number) = Some (TypeName ''number'')
     \<and> default_f (mergeAllOf string_then_number) = Some (JNum ''1'')"
  using scalar_fields_last_fragment_wins[of string_then_number
      "the (allOf string_then_number)"]
  by (simp add: string_then_number_def last_fragment_wins_def mergeAllOf_flat)

text \<open>
  Claim C6. \<open>mergeAllOf\<close> is the identity on a property without \<open>allOf\<close>, hence idempotent;
  on a property whose \<open>allOf\<close> is the empty array it returns the property with only the
  \<open>allOf\<close> key cleared.
\<close>

theorem flatten_identity_on_flat:
  "(allOf P = None \<longrightarrow> mergeAllOf P = P)
     \<and> mergeAllOf (mergeAllOf P) = mergeAllOf P
     \<and> (allOf P = Some [] \<longrightarrow> mergeAllOf P = without_allOf P)"
  by (simp add: mergeAllOf_flat allOf_mergeAllOf mergeAllOf_fold)

theorem flatten_identity_on_flat_witness:
  "allOf plain_string = None \<and> mergeAllOf plain_string = plain_string
     \<and> allOf typed_empty_allOf = Some [] \<and> mergeAllOf typed_empty_allOf = plain_string"
  using flatten_identity_on_flat[of plain_string] flatten_identity_on_flat[of typed_empty_allOf]
  by (simp add: plain_string_def typed_empty_allOf_def without_allOf_def)

text \<open>
  What the reducer does with \<open>properties\<close>: the keys of the property and of its direct
  fragments are united, and sibling keys survive.
\<close>

lemma keys_spread_entries: "fst ` set (spread_entries a b) = fst ` set a \<union> fst ` set b"
  unfolding spread_entries_def
proof (induction b arbitrary: a)
  case Nil
  then show ?case by simp
next
  case (Cons e b)
  obtain k v where e: "e = (k, v)" by (cases e)
  have "fst ` set (foldl (\<lambda>m (k, v). AList.update k v m) (AList.update k v a) b)
          = fst ` set (AList.update k v a) \<union> fst ` set b"
    by (rule Cons.IH)
  then show ?case
    by (simp add: e dom_update)
qed

lemma fold_merge_keys:
  "fst ` set (own_entries (properties
       (foldl (\<lambda>acc cur. merge_fragment acc (f cur) cur) acc (cur0 # frs))))
     = fst ` set (own_entries (properties acc))
         \<union> (\<Union>cur \<in> set (cur0 # frs). fst ` set (own_entries (properties cur)))"
proof (induction frs arbitrary: acc cur0)
  case Nil
  then show ?case by (simp add: merge_fragment_def keys_spread_entries)
next
  case (Cons cur frs)
  have "fst ` set (own_entries (properties (merge_fragment acc (f cur0) cur0)))
          = fst ` set (own_entries (properties acc)) \<union> fst ` set (own_entries (properties cur0))"
    by (simp add: merge_fragment_def keys_spread_entries)
  with Cons.IH[of "merge_fragment acc (f cur0) cur0" cur] show ?case
    by auto
qed

lemma merged_keys:
  assumes "allOf p = Some (cur0 # frs)"
  shows "fst ` set (own_entries (properties (mergeAllOf p)))
     = fst ` set (own_entries (properties p))
         \<union> (\<Union>cur \<in> set (cur0 # frs). fst ` set (own_entries (properties cur)))"
proof -
  have "properties (without_allOf p) = properties p"
    by (simp add: without_allOf_def)
  then show ?thesis
    unfolding mergeAllOf_fold[OF assms] fold_merge_keys by simp
qed

lemma sibling_keys_unioned:
  "properties (mergeAllOf (two_fragments X Y)) = Some [(''a'', X), (''b'', Y)]"
  by (simp add: two_fragments_def mergeAllOf_fold mergeAllOf_flat merge_fragment_def
      without_allOf_def spread_entries_def)

lemma mergeAllOf_inner:
  "mergeAllOf inner_fragment = SchemaProperty None None None None None None
     (Some [(''a'', empty_property)]) None None None None None None"
  by (simp add: inner_fragment_def leaf_a_def mergeAllOf_fold mergeAllOf_flat merge_fragment_def
      without_allOf_def spread_field_def spread_entries_def)

text \<open>
  Claim C1 says that the keys revealed only by a fragment's own nested \<open>allOf\<close> reach the
  properties of the result. The reducer writes \<open>properties\<close> from the accumulator and from the
  fragment as it stands, not from the flattened fragment: for
  \<^verbatim>\<open>{allOf: [{allOf: [{properties: {a: {}}}]}]}\<close> the flattened fragment has the key \<open>a\<close>, and the
  flattened property has no key at all.
\<close>

theorem nested_allOf_properties_lost:
  "properties (mergeAllOf inner_fragment) = Some [(''a'', empty_property)]
     \<and> properties (mergeAllOf nested_allOf) = Some []"
proof -
  have frs: "allOf nested_allOf = Some [inner_fragment]"
    by (simp add: nested_allOf_def)
  have own: "properties inner_fragment = None" "properties (without_allOf nested_allOf) = None"
    by (simp_all add: inner_fragment_def nested_allOf_def without_allOf_def)
  show ?thesis
    by (simp add: mergeAllOf_fold[OF frs] mergeAllOf_inner merge_fragment_def own
        spread_entries_def)
qed

subsection \<open>The example splitter\<close>

text \<open>
  Claim C4 says that the example of the specification yields the code
  \<^verbatim>\<open>foo: 1\n  bar: 2\<close>. \<open>parseContent\<close> trims the extracted block before it measures the
  indentation, so the first line starts at column zero, the minimum is zero and nothing is
  removed: the code is \<^verbatim>\<open>foo: 1\n    bar: 2\<close>. The commentary is \<^verbatim>\<open>Intro text.\<close> as claimed.
\<close>

theorem example_split_keeps_relative_indentation:
  "parseContent (Some example_input)
     = Inr \<lparr>briefing = ''Intro text.'', codeBlock = ''foo: 1\<newline>    bar: 2''\<rparr>
   \<and> parseContent (Some example_input)
     \<noteq> Inr \<lparr>briefing = ''Intro text.'', codeBlock = ''foo: 1\<newline>  bar: 2''\<rparr>"
  unfolding example_input_def by code_simp

lemma sequence_Inr:
  "(\<And>r. r \<in> set rs \<Longrightarrow> \<exists>x. r = Inr x) \<Longrightarrow> \<exists>xs. sequence rs = Inr xs"
proof (induction rs)
  case Nil
  then show ?case by simp
next
  case (Cons r rs)
  then obtain x xs where "r = Inr x" "sequence rs = Inr xs"
    by (metis list.set_intros(1) list.set_intros(2))
  then show ?case by simp
qed

lemma parseContent_string: "\<exists>p. parseContent (Some s) = Inr p"
  by (simp add: parseContent_def Let_def)

text \<open>Every non-empty array of examples renders.\<close>

lemma nonempty_examples_render:
  assumes "exs \<noteq> []"
  shows "\<exists>n. MarkdownCodeSeparator (Some exs) k = Inr n"
proof (cases "length exs > 1")
  case True
  let ?tab = "\<lambda>(index, example).
      case parseContent (Some example) of
        Inl e \<Rightarrow> Inl e
      | Inr p \<Rightarrow> Inr (Elem ''TabItem''
            [(''key'', Str (string_of_nat index)), (''value'', Str (tab_value index))]
            [Elem ''div'' [] (example_body p)])"
  have "\<exists>tabs. sequence (map ?tab (zip [0..<length exs] exs)) = Inr tabs"
  proof (rule sequence_Inr)
    fix r
    assume "r \<in> set (map ?tab (zip [0..<length exs] exs))"
    then obtain i e where "r = ?tab (i, e)"
      by auto
    with parseContent_string[of e] show "\<exists>x. r = Inr x"
      by auto
  qed
  with True show ?thesis
    by (auto simp: MarkdownCodeSeparator_def)
next
  case False
  with assms obtain e where "exs = [e]"
    by (cases exs) auto
  with parseContent_string[of e] show ?thesis
    by (auto simp: MarkdownCodeSeparator_def array_get_def)
qed

text \<open>
  Claim C10 says that the example renderer is total on every array of examples. On the empty
  array \<open>MarkdownCodeSeparator\<close> takes the branch written for a single example and applies
  \<open>parseContent\<close> to \<^verbatim>\<open>examples[0]\<close>, which is \<^verbatim>\<open>undefined\<close>: the call throws, and so does
  \<open>PropertyContent\<close> on a property with \<^verbatim>\<open>examples: []\<close>, since an empty array passes its guard.
\<close>

theorem empty_examples_throw:
  "MarkdownCodeSeparator (Some []) ''examples''
     = Inl (TypeError ''Cannot read properties of undefined'')
   \<and> PropertyContent no_examples = Inl (TypeError ''Cannot read properties of undefined'')"
  by (simp add: MarkdownCodeSeparator_def PropertyContent_def no_examples_def array_get_def
      parseContent_def)

subsection \<open>The loader\<close>

lemma find_sub_append: "find_sub s (a @ s @ b) \<noteq> None"
proof (induction a)
  case Nil
  have sw: "starts_with s (s @ b)"
    by (simp add: starts_with_def)
  show ?case
  proof (cases "s @ b")
    case Nil
    then show ?thesis by simp
  next
    case (Cons c cs)
    with sw show ?thesis by simp
  qed
next
  case (Cons c a)
  then show ?case by auto
qed

text \<open>
  The first variant checks \<^verbatim>\<open>response.ok\<close>: a response that is not ok ends in the error state,
  with a message that holds the status code.
\<close>

lemma first_loader_reports_status:
  assumes "\<not> ok response"
  shows "\<exists>msg. fetchSchema resolve (Inr response) initial_state
           = \<lparr>schema = defaultSchema, loading = False, error = Some msg\<rparr>
         \<and> String_includes msg (string_of_nat (status response))
         \<and> NebariConfig (fetchSchema resolve (Inr response) initial_state)
             = Inr (Elem ''p'' [] [Text ''Error loading schema: '', Text msg])"
  using assms find_sub_append[of "string_of_nat (status response)"
      "''Failed to fetch schema: ''" "'' '' @ statusText response"]
  by (simp add: fetchSchema_def initial_state_def String_includes_def NebariConfig_def
      truthy_string_def)

text \<open>
  The second variant does not look at the status at all: whenever the body parses and
  resolves, the schema is set and no error is recorded.
\<close>

lemma second_loader_ready_on_any_status:
  assumes "json_result response = Inr rawSchema" and "resolve rawSchema = Inr resolved"
  shows "fetchSchema2 resolve (Inr response) st = st\<lparr>schema := resolved, loading := False\<rparr>"
  using assms by (simp add: fetchSchema2_def)

text \<open>
  Claim C9 says that in every variant of the loader a response with a non-success status ends
  in the error state, with the status code in the message. The second variant never looks at
  the status: a 404 response whose body is a schema document ends with that schema set and no
  error, and the page is rendered; a 404 response whose body is not JSON ends with the message
  of the parser, which does not hold the status code.
\<close>

theorem second_loader_ignores_status:
  "fetchSchema2 resolve_plain (Inr not_found_document) initial_state2
     = \<lparr>schema = defaultSchema, loading = False, error = None\<rparr>
   \<and> NebariConfig2 (fetchSchema2 resolve_plain (Inr not_found_document) initial_state2)
     = Elem ''Fragment'' [] [info_admonition, SchemaToc2 [],
         Markdown ''The configuration schema for Nebari.'', PropertiesList2 []]
   \<and> error (fetchSchema2 resolve_plain (Inr not_found_text) initial_state2)
     = Some ''Unexpected non-whitespace character after JSON at position 3''
   \<and> \<not> String_includes ''Unexpected non-whitespace character after JSON at position 3''
         ''404''"
proof (intro conjI)
  show "fetchSchema2 resolve_plain (Inr not_found_document) initial_state2
     = \<lparr>schema = defaultSchema, loading = False, error = None\<rparr>"
    by (simp add: fetchSchema2_def not_found_document_def resolve_plain_def initial_state2_def)
  show "NebariConfig2 (fetchSchema2 resolve_plain (Inr not_found_document) initial_state2)
     = Elem ''Fragment'' [] [info_admonition, SchemaToc2 [],
         Markdown ''The configuration schema for Nebari.'', PropertiesList2 []]"
    by (simp add: fetchSchema2_def not_found_document_def resolve_plain_def initial_state2_def
        NebariConfig2_def truthy_string_def defaultSchema_def)
  show "error (fetchSchema2 resolve_plain (Inr not_found_text) initial_state2)
     = Some ''Unexpected non-whitespace character after JSON at position 3''"
    by (simp add: fetchSchema2_def not_found_text_def resolve_plain_def initial_state2_def)
  show "\<not> String_includes ''Unexpected non-whitespace character after JSON at position 3''
         ''404''"
    by code_simp
qed

subsection \<open>Order of the table of contents and of the sections\<close>

lemma key_of_section: "key_of (property_section key sub value content extra) = Some key"
  by (simp add: key_of_def property_section_def)

lemma sequence_map_keys:
  assumes "\<And>k v n. f (k, v) = Inr n \<Longrightarrow> key_of n = Some k"
    and "sequence (map f es) = Inr ns"
  shows "map key_of ns = map (Some \<circ> fst) es"
  using assms
proof (induction es arbitrary: ns)
  case Nil
  then show ?case by simp
next
  case (Cons e es)
  obtain k v where e: "e = (k, v)" by (cases e)
  from Cons.prems(2) obtain n ns'
    where n: "f (k, v) = Inr n" "sequence (map f es) = Inr ns'" "ns = n # ns'"
    by (auto simp: e split: sum.splits)
  have "key_of n = Some k"
    using Cons.prems(1)[of k v n] n(1) by (simp add: e)
  moreover have "map key_of ns' = map (Some \<circ> fst) es"
    using Cons.IH[OF Cons.prems(1) n(2)] by simp
  ultimately show ?case
    by (simp add: n(3) e)
qed

lemma PropertiesList_keys:
  assumes "PropertiesList props sub = Inr out"
  shows "child_keys out = map (Some \<circ> fst) (Object_entries props)"
proof -
  let ?f = "\<lambda>(key, value).
              case PropertyContent value of
                Inl e \<Rightarrow> Inl e
              | Inr content \<Rightarrow>
                  (case allOf value of
                     None \<Rightarrow> Inr (property_section key sub value content [])
                   | Some frs \<Rightarrow>
                       if length frs > 0 then
                         (if truthy_object (properties (frs ! 0)) then
                            (case PropertiesList (own_entries (properties (mergeAllOf value)))
                                    True of
                               Inl e \<Rightarrow> Inl e
                             | Inr nested \<Rightarrow>
                                 Inr (property_section key sub value content
                                        [Details nested]))
                          else Inr (property_section key sub value content []))
                       else Inr (property_section key sub value content []))"
  from assms obtain ns where ns: "sequence (map ?f (Object_entries props)) = Inr ns"
    and out: "out = Elem ''Fragment'' [] ns"
    by (subst (asm) PropertiesList.simps) (auto split: sum.splits)
  have "map key_of ns = map (Some \<circ> fst) (Object_entries props)"
  proof (rule sequence_map_keys[OF _ ns])
    fix k v n
    assume "?f (k, v) = Inr n"
    then show "key_of n = Some k"
      by (auto simp: key_of_section split: sum.splits option.splits if_splits)
  qed
  then show ?thesis
    by (simp add: out child_keys_def children_def)
qed

text \<open>
  Appending the text that \<^verbatim>\<open>sort()\<close> compares does not change the order of two keys whose
  characters all come after the comma.
\<close>

lemma append_suffix_le:
  assumes "\<forall>c \<in> set k1. CHR '','' < c" "\<forall>c \<in> set k2. CHR '','' < c"
  shows "(k1 @ CHR '','' # s \<le> k2 @ CHR '','' # s) = (k1 \<le> k2)"
  using assms
proof (induction k1 arbitrary: k2)
  case Nil
  then show ?case by (cases k2) auto
next
  case (Cons c cs)
  then show ?case by (cases k2) auto
qed

lemma set_sort_entries: "set (sort_entries es) = set es"
  by (simp add: sort_entries_def)

lemma sorted_keys:
  assumes "\<forall>k \<in> fst ` set es. \<forall>c \<in> set k. CHR '','' < c"
  shows "sorted (map fst (sort_entries es))"
proof -
  have "sorted (map entry_string (sort_entries es))"
    by (simp add: sort_entries_def)
  then have "sorted_wrt (\<lambda>x y. entry_string x \<le> entry_string y) (sort_entries es)"
    by (simp add: sorted_map)
  then have "sorted_wrt (\<lambda>x y. fst x \<le> fst y) (sort_entries es)"
  proof (rule sorted_wrt_mono_rel[rotated])
    fix x y
    assume "x \<in> set (sort_entries es)" "y \<in> set (sort_entries es)"
      and le: "entry_string x \<le> entry_string y"
    then have "\<forall>c \<in> set (fst x). CHR '','' < c" "\<forall>c \<in> set (fst y). CHR '','' < c"
      using assms by (auto simp: set_sort_entries)
    from append_suffix_le[OF this, of "''[object Object]''"] le
    show "fst x \<le> fst y"
      by (simp add: entry_string_def)
  qed
  then show ?thesis
    by (simp add: sorted_map)
qed

text \<open>
  Claim C2 says that the sections are emitted in lexicographic order of the keys, like the
  table of contents, and never in source order. For \<^verbatim>\<open>{zeta: {}, alpha: {}}\<close> both variants
  of \<open>PropertiesList\<close> emit \<open>zeta\<close> before \<open>alpha\<close>, while the table of contents lists \<open>alpha\<close>
  first.
\<close>

theorem sections_follow_source_order:
  "map_sum id child_keys (PropertiesList zeta_alpha False) = Inr [Some ''zeta'', Some ''alpha'']
   \<and> child_keys (PropertiesList2 zeta_alpha) = [Some ''zeta'', Some ''alpha'']
   \<and> child_keys (SchemaToc (defaultSchema\<lparr>properties_s := zeta_alpha\<rparr>))
       = [Some ''alpha'', Some ''zeta'']"
  by code_simp

text \<open>
  Claim C2 as amended. In both variants the sections are emitted in the order of
  \<^verbatim>\<open>Object.entries\<close> (keys that are array indices first, in ascending order, then the other
  keys in the order of the document), and only the table of contents is sorted: its
  entries ascend by the text \<^verbatim>\<open>key + ",[object Object]"\<close>, which is the lexicographic order of
  the keys whenever every character of every key comes after the comma.
\<close>

theorem toc_sorted_sections_in_source_order:
  "(PropertiesList props sub = Inr out
      \<longrightarrow> child_keys out = map (Some \<circ> fst) (Object_entries props))
   \<and> child_keys (PropertiesList2 props) = map (Some \<circ> fst) (Object_entries props)
   \<and> child_keys (SchemaToc sch)
       = map (Some \<circ> fst) (sort_entries (Object_entries (properties_s sch)))
   \<and> child_keys (SchemaToc2 props) = map (Some \<circ> fst) (sort_entries (Object_entries props))
   \<and> sorted (map entry_string (sort_entries (Object_entries props)))
   \<and> ((\<forall>k \<in> fst ` set props. \<forall>c \<in> set k. CHR '','' < c)
        \<longrightarrow> sorted (map fst (sort_entries (Object_entries props))))"
proof (intro conjI impI)
  assume "PropertiesList props sub = Inr out"
  then show "child_keys out = map (Some \<circ> fst) (Object_entries props)"
    by (rule PropertiesList_keys)
next
  show "child_keys (PropertiesList2 props) = map (Some \<circ> fst) (Object_entries props)"
    by (simp add: PropertiesList2_def child_keys_def children_def PropertyDetail_def key_of_def
        case_prod_unfold comp_def)
next
  show "child_keys (SchemaToc sch)
       = map (Some \<circ> fst) (sort_entries (Object_entries (properties_s sch)))"
    by (simp add: SchemaToc_def child_keys_def children_def toc_item_def key_of_def
        case_prod_unfold comp_def)
next
  show "child_keys (SchemaToc2 props) = map (Some \<circ> fst) (sort_entries (Object_entries props))"
    by (simp add: SchemaToc2_def child_keys_def children_def toc_item_def key_of_def
        case_prod_unfold comp_def)
next
  show "sorted (map entry_string (sort_entries (Object_entries props)))"
    by (simp add: sort_entries_def)
next
  assume "\<forall>k \<in> fst ` set props. \<forall>c \<in> set k. CHR '','' < c"
  then show "sorted (map fst (sort_entries (Object_entries props)))"
    by (intro sorted_keys) (simp add: set_Object_entries)
qed

theorem toc_sorted_sections_in_source_order_witness:
  "PropertiesList zeta_alpha False = Inr (projr (PropertiesList zeta_alpha False))
   \<and> child_keys (projr (PropertiesList zeta_alpha False)) = [Some ''zeta'', Some ''alpha'']
   \<and> child_keys (SchemaToc2 zeta_alpha) = [Some ''alpha'', Some ''zeta'']
   \<and> sorted (map fst (sort_entries (Object_entries zeta_alpha)))"
proof -
  have run: "PropertiesList zeta_alpha False = Inr (projr (PropertiesList zeta_alpha False))"
    by code_simp
  have chars: "\<forall>k \<in> fst ` set zeta_alpha. \<forall>c \<in> set k. CHR '','' < c"
    by (simp add: zeta_alpha_def)
  have entries: "Object_entries zeta_alpha = zeta_alpha"
    "sort_entries zeta_alpha = [(''alpha'', empty_property), (''zeta'', empty_property)]"
    by code_simp+
  from toc_sorted_sections_in_source_order[of zeta_alpha False
      "projr (PropertiesList zeta_alpha False)"] run chars entries
  show ?thesis
    by (simp add: zeta_alpha_def)
qed

subsection \<open>The section of available options\<close>

text \<open>
  Claim C3 says that the collapsible section appears exactly when the flattened property has
  a non-empty \<open>properties\<close> map, whichever fragment contributed it, and is never empty. For
  \<^verbatim>\<open>{allOf: [{type: "string"}, {properties: {a: {}}}]}\<close> the flattened property has the key
  \<open>a\<close> and no section is emitted; for \<^verbatim>\<open>{allOf: [{properties: {}}]}\<close> the flattened property
  has no key and an empty section is emitted.
\<close>

theorem options_hidden_behind_first_fragment:
  "own_entries (properties (mergeAllOf options_in_second_fragment)) = [(''a'', empty_property)]
   \<and> PropertiesList [(''opt'', options_in_second_fragment)] False
       = Inr (Elem ''Fragment'' []
           [Elem ''div'' [(''key'', Str ''opt'')]
              [PropertieTitle ''opt'' False None, empty_content]])
   \<and> own_entries (properties (mergeAllOf empty_options)) = []
   \<and> PropertiesList [(''opt'', empty_options)] False
       = Inr (Elem ''Fragment'' []
           [Elem ''div'' [(''key'', Str ''opt'')]
              [PropertieTitle ''opt'' False None, empty_content,
               Elem ''Details'' [(''summary'', Str ''Available Options'')]
                 [Elem ''Fragment'' [] []]]])"
  by code_simp

lemma first_fragment_guard:
  "first_fragment_has_properties value
     = (case allOf value of
          None \<Rightarrow> False
        | Some frs \<Rightarrow> 0 < length frs \<and> truthy_object (properties (frs ! 0)))"
  by (auto simp: first_fragment_has_properties_def truthy_object_def
      split: option.splits list.splits)

text \<open>
  Claim C3 as amended. For every properties object, at the top level and in every nested
  list, the first variant renders the entries of \<^verbatim>\<open>Object.entries\<close> one by one, and the section
  of each entry has the collapsible part exactly when \<open>allOf\<close> of that entry is a non-empty
  array whose first fragment has a \<open>properties\<close> field; the collapsible part then holds the
  render, one heading level down, of the properties of the flattened property, which may be
  none. In every other case the section of the entry ends after its content.
\<close>

theorem options_follow_first_fragment:
  "PropertiesList props sub =
     (case sequence (map (property_entry sub) (Object_entries props)) of
        Inl e \<Rightarrow> Inl e
      | Inr sections \<Rightarrow> Inr (Elem ''Fragment'' [] sections))"
proof -
  have "(\<lambda>(key, value).
              case PropertyContent value of
                Inl e \<Rightarrow> Inl e
              | Inr content \<Rightarrow>
                  (case allOf value of
                     None \<Rightarrow> Inr (property_section key sub value content [])
                   | Some frs \<Rightarrow>
                       if length frs > 0 then
                         (if truthy_object (properties (frs ! 0)) then
                            (case PropertiesList (own_entries (properties (mergeAllOf value)))
                                    True of
                               Inl e \<Rightarrow> Inl e
                             | Inr nested \<Rightarrow>
                                 Inr (property_section key sub value content
                                        [Details nested]))
                          else Inr (property_section key sub value content []))
                       else Inr (property_section key sub value content [])))
        = property_entry sub"
    by (rule ext)
      (auto simp: property_entry_def first_fragment_guard split: sum.splits option.splits)
  then show ?thesis
    by (subst PropertiesList.simps) simp
qed

theorem options_follow_first_fragment_witness:
  "PropertiesList two_with_options False
     = Inr (Elem ''Fragment'' []
         [property_section ''first'' False empty_options empty_content
            [Details (Elem ''Fragment'' [] [])],
          property_section ''second'' False inner_fragment empty_content
            [Details (Elem ''Fragment'' []
               [property_section ''a'' True empty_property empty_content []])]])"
proof -
  have "(case sequence (map (property_entry False) (Object_entries two_with_options)) of
           Inl e \<Rightarrow> Inl e
         | Inr sections \<Rightarrow> Inr (Elem ''Fragment'' [] sections))
     = Inr (Elem ''Fragment'' []
         [property_section ''first'' False empty_options empty_content
            [Details (Elem ''Fragment'' [] [])],
          property_section ''second'' False inner_fragment empty_content
            [Details (Elem ''Fragment'' []
               [property_section ''a'' True empty_property empty_content []])]])"
    by code_simp
  with options_follow_first_fragment[of two_with_options False] show ?thesis
    by (rule trans)
qed

subsection \<open>The details table\<close>

lemma length_table_rows: "length (table_rows p) = count_details p"
  by (simp add: table_rows_def count_details_def truthy_object_def split: option.splits)

lemma tables_of_content:
  assumes "PropertyContent p = Inr n"
  shows "tables n = (if hasTableData p then [details_table p] else [])"
  using assms
  by (auto simp: PropertyContent_def MarkdownCodeSeparator_def tables_def children_def
      tag_of_def details_table_def Markdown_def split: sum.splits option.splits if_splits)

text \<open>
  Apart from the gate, the table is as the specification asks: its rows are those of the
  fields that are set, one each, in the order of the specification.
\<close>

lemma table_row_headers:
  "map row_header (table_rows p) = map (\<lambda>header. [header]) (expected_headers p)"
  by (simp add: table_rows_def expected_headers_def row_header_def table_row_def children_def
      tag_of_def split: option.splits)

lemma rows_of_details_table: "rows (details_table p) = table_rows p"
  by (simp add: rows_def details_table_def children_def tag_of_def)

lemma table_gate:
  "hasTableData p = (0 < count_details p \<or> deprecated p = Some True)"
  by (auto simp: hasTableData_def count_details_def truthy_object_def truthy_bool_def
      split: option.splits)

text \<open>
  Claim C7 says that the table is omitted when none of \<open>type\<close>, \<open>default\<close>, \<open>enum\<close>,
  \<open>optionsAre\<close>, \<open>pattern\<close> is present, even if \<open>deprecated\<close> is set. The gate \<open>hasTableData\<close>,
  commented as the check that some table data is available, also holds when only
  \<open>deprecated\<close> is set, for which the table has no row: for \<^verbatim>\<open>{deprecated: true}\<close> the
  renderer emits a table whose body is empty.
\<close>

theorem deprecated_alone_gives_empty_table:
  "PropertyContent only_deprecated
     = Inr (Elem ''div'' [(''className'', Str ''property-content'')]
         [Elem ''table'' [(''className'', Str ''property-details'')]
            [Elem ''style'' [] [Text table_css], Elem ''tbody'' [] []]])"
  by (simp add: PropertyContent_def only_deprecated_def hasTableData_def details_table_def
      table_rows_def truthy_type_def truthy_object_def truthy_string_def truthy_bool_def)

text \<open>The gate is open there although none of the five fields is set.\<close>

lemma gate_open_without_rows:
  "hasTableData only_deprecated \<and> count_details only_deprecated = 0
     \<and> table_rows only_deprecated = []"
  by (simp add: only_deprecated_def hasTableData_def table_rows_def count_details_def
      truthy_type_def truthy_object_def truthy_string_def truthy_bool_def)

subsection \<open>Deprecated properties\<close>

text \<open>
  Claim C8 says that a deprecated property has its name struck through and a badge attached,
  in the table of contents and in the heading of its section. For \<^verbatim>\<open>{deprecated: true}\<close>
  the entry of the table of contents has no badge, and the heading of the first variant has
  the badge but no strike-through.
\<close>

theorem toc_has_no_badge_title_no_strike:
  "\<not> has_badge (toc_item (''old'', only_deprecated))
   \<and> struck_through (toc_item (''old'', only_deprecated))
   \<and> \<not> struck_through (PropertieTitle ''old'' False (deprecated only_deprecated))
   \<and> has_badge (PropertieTitle ''old'' False (deprecated only_deprecated))"
  by code_simp

text \<open>
  Claim C8 as amended. In the entry of the table of contents (both variants) the only text is
  the name of the property; it stands inside a struck element exactly when \<open>deprecated\<close> is
  true, and there is never a badge. The heading of the first variant shows the name, never
  struck through, followed by the badge exactly when \<open>deprecated\<close> is true. The section of the
  second variant is an anchor, then the heading, whose only text is the name, struck through
  exactly when \<open>deprecated\<close> is true and without a badge, then, exactly when \<open>deprecated\<close> is
  true, a paragraph that holds the badge, then the description if there is one. A property
  whose \<open>deprecated\<close> is absent or false gets neither mark anywhere.
\<close>

theorem deprecated_marks:
  "all_texts (toc_item (key, value)) = [key]
   \<and> struck_texts (toc_item (key, value)) = (if deprecated value = Some True then [key] else [])
   \<and> (struck_through (toc_item (key, value)) \<longleftrightarrow> deprecated value = Some True)
   \<and> \<not> has_badge (toc_item (key, value))
   \<and> all_texts (PropertieTitle key sub (deprecated value))
       = [key, '' ''] @ (if deprecated value = Some True then [''Deprecated''] else [])
   \<and> (has_badge (PropertieTitle key sub (deprecated value)) \<longleftrightarrow> deprecated value = Some True)
   \<and> \<not> struck_through (PropertieTitle key sub (deprecated value))
   \<and> map tag_of (children (PropertyDetail key value level))
       = [''a'', ''Heading''] @ (if deprecated value = Some True then [''p''] else [])
         @ (if truthy_string (description value) then [''ReactMarkdown''] else [])
   \<and> all_texts (children (PropertyDetail key value level) ! 1) = [key]
   \<and> struck_texts (children (PropertyDetail key value level) ! 1)
       = (if deprecated value = Some True then [key] else [])
   \<and> \<not> has_badge (children (PropertyDetail key value level) ! 1)
   \<and> filter (\<lambda>c. tag_of c = ''p'') (children (PropertyDetail key value level))
       = (if deprecated value = Some True then [Elem ''p'' [] [badge]] else [])
   \<and> (struck_through (PropertyDetail key value level) \<longleftrightarrow> deprecated value = Some True)
   \<and> (has_badge (PropertyDetail key value level) \<longleftrightarrow> deprecated value = Some True)"
  by (auto simp: toc_item_def PropertieTitle_def PropertyDetail_def struck_through_def
      has_badge_def is_struck_def strike_def badge_def truthy_bool_def Markdown_def
      children_def tag_of_def split: option.splits)

theorem deprecated_marks_witness:
  "struck_texts (toc_item (''old'', only_deprecated)) = [''old'']
   \<and> has_badge (PropertieTitle ''old'' True (deprecated only_deprecated))
   \<and> map tag_of (children (PropertyDetail ''old'' only_deprecated 1)) = [''a'', ''Heading'', ''p'']
   \<and> struck_texts (children (PropertyDetail ''old'' only_deprecated 1) ! 1) = [''old'']
   \<and> filter (\<lambda>c. tag_of c = ''p'') (children (PropertyDetail ''old'' only_deprecated 1))
       = [Elem ''p'' [] [badge]]
   \<and> struck_texts (toc_item (''new'', empty_property)) = []
   \<and> all_texts (toc_item (''new'', empty_property)) = [''new'']
   \<and> \<not> has_badge (PropertyDetail ''new'' empty_property 1)"
  using deprecated_marks[of "''old''" only_deprecated True 1]
    deprecated_marks[of "''new''" empty_property True 1]
  by (simp add: only_deprecated_def empty_property_def truthy_string_def)

end
